theory Spec2Isabelle
  imports Main "HOL-Library.Sublist"
begin

section \<open>The step and hook registry of the preprocessor (src/lib/registry.ts)\<close>

text \<open>
  The registry is a class with four private tables and a handful of methods. The
  embedding passes the tables explicitly (a record, returned updated by every
  registration) and turns every \<^verbatim>\<open>throw\<close> into the left summand of a sum type: those of
  the source, and those of the libraries and callbacks it calls, which the registry never
  catches. A call of a user callback is a value (the function, the receiver, the
  arguments); the run functions return the calls they make, and what a hook does when it
  is called is a parameter.
\<close>

subsection \<open>JavaScript values\<close>

text \<open>
  Several arguments of the registry are inspected at run time (\<^verbatim>\<open>typeof\<close>,
  \<^verbatim>\<open>instanceof RegExp\<close>, truthiness), so they are dynamically typed values. A function
  is a reference (its identity), a regular expression carries its source and flags, an
  object its own properties, a data table its raw rows.
\<close>

datatype jsval =
    Undefined
  | Null
  | Bool bool
  | Num int
  | Str string
  | Func nat
  | RegExp string string
  | DataTable "string list list"
  | Object "(string \<times> jsval) list"

text \<open>The \<^verbatim>\<open>typeof\<close> operator (\<^verbatim>\<open>typeof null\<close> is \<^verbatim>\<open>"object"\<close>).\<close>

fun typeof :: "jsval \<Rightarrow> string" where
  "typeof Undefined = ''undefined''"
| "typeof Null = ''object''"
| "typeof (Bool b) = ''boolean''"
| "typeof (Num n) = ''number''"
| "typeof (Str s) = ''string''"
| "typeof (Func f) = ''function''"
| "typeof (RegExp src flags) = ''object''"
| "typeof (DataTable rows) = ''object''"
| "typeof (Object props) = ''object''"

text \<open>Truthiness, as \<^verbatim>\<open>if (v)\<close> and \<^verbatim>\<open>v ? a : b\<close> test it.\<close>

fun truthy :: "jsval \<Rightarrow> bool" where
  "truthy Undefined = False"
| "truthy Null = False"
| "truthy (Bool b) = b"
| "truthy (Num n) = (n \<noteq> 0)"
| "truthy (Str s) = (s \<noteq> [])"
| "truthy (Func f) = True"
| "truthy (RegExp src flags) = True"
| "truthy (DataTable rows) = True"
| "truthy (Object props) = True"

text \<open>
  The errors of the source are all \<^verbatim>\<open>new Error(message)\<close>; reading a property of
  \<^verbatim>\<open>null\<close> is the \<^verbatim>\<open>TypeError\<close> of the language.
\<close>

datatype error = Error string | TypeError string

text \<open>
  Reading the property \<^verbatim>\<open>tags\<close> of a value whose \<^verbatim>\<open>typeof\<close> is \<^verbatim>\<open>"object"\<close>: an own
  property of an object, \<^verbatim>\<open>undefined\<close> where there is none, a \<^verbatim>\<open>TypeError\<close> on
  \<^verbatim>\<open>null\<close>.
\<close>

fun get_tags :: "jsval \<Rightarrow> error + jsval" where
  "get_tags Null = Inl (TypeError ''Cannot read properties of null'')"
| "get_tags (Object props) =
     (case map_of props ''tags'' of None \<Rightarrow> Inr Undefined | Some v \<Rightarrow> Inr v)"
| "get_tags v = Inr Undefined"

text \<open>\<^verbatim>\<open>RegExp.prototype.toString\<close>, which a template literal applies to a regular expression.\<close>

definition RegExp_toString :: "string \<Rightarrow> string \<Rightarrow> string" where
  "RegExp_toString src flags = ''/'' @ src @ ''/'' @ flags"

text \<open>A number in a template literal: the decimal digits of a line number.\<close>

definition digit_char :: "nat \<Rightarrow> char" where
  "digit_char d = ''0123456789'' ! d"

function Number_toString :: "nat \<Rightarrow> string" where
  "Number_toString n =
     (if n < 10 then [digit_char n] else Number_toString (n div 10) @ [digit_char (n mod 10)])"
  by pat_completeness auto
termination
  by (relation "measure (\<lambda>n. n)") auto

declare Number_toString.simps [simp del]

text \<open>\<^verbatim>\<open>Array.prototype.join\<close> on strings.\<close>

fun join :: "string \<Rightarrow> string list \<Rightarrow> string" where
  "join sep [] = []"
| "join sep [x] = x"
| "join sep (x # y # ys) = x @ sep @ join sep (y # ys)"

text \<open>\<^verbatim>\<open>String.prototype.includes\<close>: the argument occurs as a contiguous part.\<close>

definition String_includes :: "string \<Rightarrow> string \<Rightarrow> bool" where
  "String_includes s part = sublist part s"

subsection \<open>The external collaborators\<close>

text \<open>
  A parameter type of the expression library, as
  \<^verbatim>\<open>new ParameterType(name, regexp, type, transform, useForSnippets, preferForRegexpMatch)\<close>
  builds it: the fields are the arguments as they are passed. The transformer is a
  callback of the author: it is called with the execution context as receiver and the
  captured strings as arguments, and returns the typed value or raises.
\<close>

record ParameterType =
  name :: string
  regexps :: jsval
  type' :: jsval
  transform :: "jsval \<Rightarrow> string list \<Rightarrow> error + jsval"
  useForSnippets :: jsval
  preferForRegexpMatch :: jsval

text \<open>
  One element of the array that \<^verbatim>\<open>expression.match(text)\<close> returns: the raw capture and
  the parameter type of its placeholder.
\<close>

record Argument =
  group :: "string list"
  parameterType :: ParameterType

text \<open>
  Modelled from the spec: \<^verbatim>\<open>Argument.getValue\<close> of the external expression library,
  which section 4.4 describes: each typed value is produced by feeding a raw capture
  through its ParameterType's transform, and the transform receives the execution
  context. What the transform raises, \<^verbatim>\<open>getValue\<close> raises.
\<close>

definition getValue :: "Argument \<Rightarrow> jsval \<Rightarrow> error + jsval" where
  "getValue a thisObj = transform (parameterType a) thisObj (group a)"

text \<open>
  A compiled expression is one of the two classes of the library. Its \<^verbatim>\<open>match\<close> method is
  the library's: it returns the array of arguments, or \<^verbatim>\<open>null\<close> when the text does not
  match. A templated expression keeps its \<^verbatim>\<open>source\<close>, a literal one its \<^verbatim>\<open>regexp\<close>
  (source and flags). The answer of \<^verbatim>\<open>match\<close> is a function of the text, as it is for
  every templated pattern; a regular expression with the flag \<^verbatim>\<open>g\<close> or \<^verbatim>\<open>y\<close>, which
  remembers where its last match ended, is not described by such a function.
\<close>

datatype Expression =
    CucumberExpression string "string \<Rightarrow> Argument list option"
  | RegularExpression string string "string \<Rightarrow> Argument list option"

fun match :: "Expression \<Rightarrow> string \<Rightarrow> Argument list option" where
  "match (CucumberExpression source m) text = m text"
| "match (RegularExpression src flags m) text = m text"

text \<open>
  Modelled from the spec: the placeholders of a templated pattern, which the expression
  library parses. Sections 3 and 8 write a placeholder as the name of a parameter type in
  braces (\<^verbatim>\<open>there are {int} items\<close>); the names are listed from left to right.
\<close>

function placeholders :: "string \<Rightarrow> string list" where
  "placeholders [] = []"
| "placeholders (c # cs) =
     (if c = CHR ''{'' then
        takeWhile (\<lambda>d. d \<noteq> CHR ''}'') cs #
        placeholders (drop 1 (dropWhile (\<lambda>d. d \<noteq> CHR ''}'') cs))
      else placeholders cs)"
  by pat_completeness auto
termination
  by (relation "measure length") (auto simp: less_Suc_eq_le intro: le_trans [OF diff_le_self length_dropWhile_le])

text \<open>
  What the module imports and does not define: the two expression constructors (the
  Expression Compiler, which builds a matcher from a pattern and the parameter type
  registry it is given), the parameter type registry of the library (its constructor and
  its \<^verbatim>\<open>defineParameterType\<close>, which rejects some registrations), the tag expression
  parser, and the stack trace parser. They are parameters of the model; \<open>'r\<close> is the
  library's parameter type registry. A constructor raises on a pattern it cannot compile
  (a placeholder of an undefined parameter type, for one), the tag expression parser on
  a tag expression it cannot parse, the parameter type registry on a registration it
  rejects: each of them returns its result or an error. The stack trace parser splits
  any string into frames.
\<close>

record StackFrame =
  file' :: "string option"
  methodName :: string
  lineNumber :: "nat option"
  column :: "nat option"

record IHook =
  node :: "string list \<Rightarrow> bool"
  implementation :: nat

record 'r library =
  new_CucumberExpression :: "string \<Rightarrow> 'r \<Rightarrow> error + (string \<Rightarrow> Argument list option)"
  new_RegularExpression ::
    "string \<Rightarrow> string \<Rightarrow> 'r \<Rightarrow> error + (string \<Rightarrow> Argument list option)"
  new_ParameterTypeRegistry :: 'r
  registry_defineParameterType :: "'r \<Rightarrow> ParameterType \<Rightarrow> error + 'r"
  parse :: "jsval \<Rightarrow> error + (string list \<Rightarrow> bool)"
  stackTraceParser_parse :: "string \<Rightarrow> StackFrame list"

subsection \<open>Hook arguments\<close>

text \<open>
  A hook pairs a tag predicate (\<^verbatim>\<open>node.evaluate\<close>, a function of the tag list) with its
  implementation. \<^verbatim>\<open>maybeFn\<close> is \<^verbatim>\<open>undefined\<close> when the caller leaves it out. The
  tag expression is parsed here, at registration, and what the parser raises is raised.
\<close>

definition noopNode :: "string list \<Rightarrow> bool" where
  "noopNode = (\<lambda>tags. True)"

definition unexpected_hook_argument :: error where
  "unexpected_hook_argument = Error ''Unexpected argument for Before hook''"

fun parseHookArguments ::
  "(jsval \<Rightarrow> error + (string list \<Rightarrow> bool)) \<Rightarrow> jsval \<Rightarrow> jsval \<Rightarrow> error + IHook" where
  "parseHookArguments prs (Func f) maybeFn =
     (if truthy maybeFn then Inl unexpected_hook_argument
      else Inr \<lparr>node = noopNode, implementation = f\<rparr>)"
| "parseHookArguments prs optionsOrFn maybeFn =
     (if typeof optionsOrFn = ''object'' then
        (case maybeFn of
           Func g \<Rightarrow>
             (case get_tags optionsOrFn of
                Inl e \<Rightarrow> Inl e
              | Inr tags \<Rightarrow>
                  (if truthy tags then
                     (case prs tags of
                        Inl e \<Rightarrow> Inl e
                      | Inr n \<Rightarrow> Inr \<lparr>node = n, implementation = g\<rparr>)
                   else Inr \<lparr>node = noopNode, implementation = g\<rparr>))
         | _ \<Rightarrow> Inl unexpected_hook_argument)
      else Inl unexpected_hook_argument)"

subsection \<open>Source location\<close>

definition isFileNameInpreprocessor :: "string \<Rightarrow> bool" where
  "isFileNameInpreprocessor filepath = String_includes filepath ''@badeball/cypress-cucumber-preprocessor''"

text \<open>The predicate of \<^verbatim>\<open>stackframes.find\<close>: a non-empty file name outside the preprocessor.\<close>

definition user_frame :: "StackFrame \<Rightarrow> bool" where
  "user_frame frame =
     (case StackFrame.file' frame of
        None \<Rightarrow> False
      | Some f \<Rightarrow> f \<noteq> [] \<and> \<not> isFileNameInpreprocessor f)"

text \<open>
  \<^verbatim>\<open>new Error().stack\<close> is an input: \<open>None\<close> when the engine gives no stack. The result is
  the pair of \<^verbatim>\<open>line\<close> and \<^verbatim>\<open>file\<close>.
\<close>

definition getDefinitionLineAndFile :: "(string \<Rightarrow> StackFrame list) \<Rightarrow> string option \<Rightarrow> nat \<times> string" where
  "getDefinitionLineAndFile stparse unparsedStack =
     (case unparsedStack of
        None \<Rightarrow> (0, ''unknown'')
      | Some s \<Rightarrow>
          if s = [] then (0, ''unknown'')
          else
            (case find user_frame (stparse s) of
               None \<Rightarrow> (0, ''unknown'')
             | Some stackframe \<Rightarrow>
                 (case lineNumber stackframe of None \<Rightarrow> 0 | Some l \<Rightarrow> l,
                  case StackFrame.file' stackframe of
                    None \<Rightarrow> ''unkown''
                  | Some f \<Rightarrow> if f = [] then ''unkown'' else f)))"

subsection \<open>The registry\<close>

record IStepDefinition =
  file' :: string
  line :: nat
  expression :: Expression
  implementation :: nat

record 'r Registry =
  parameterTypeRegistry :: 'r
  stepDefinitions :: "IStepDefinition list"
  beforeHooks :: "IHook list"
  afterHooks :: "IHook list"

text \<open>The constructor: the library's fresh parameter type registry and three empty tables.\<close>

definition Registry_new :: "'r library \<Rightarrow> 'r Registry" where
  "Registry_new lib =
     \<lparr>parameterTypeRegistry = new_ParameterTypeRegistry lib,
      stepDefinitions = [], beforeHooks = [], afterHooks = []\<rparr>"

definition unexpected_step_argument :: error where
  "unexpected_step_argument = Error ''Unexpected argument for step definition''"

text \<open>
  \<^verbatim>\<open>defineStep\<close>: the location is captured first, then the pattern is dispatched on its
  run-time type. \<open>unparsedStack\<close> is the stack of the call. The expression is
  constructed before \<^verbatim>\<open>push\<close> is called, so a constructor that raises leaves the table
  as it was.
\<close>

definition defineStep ::
  "'r library \<Rightarrow> string option \<Rightarrow> 'r Registry \<Rightarrow> jsval \<Rightarrow> nat \<Rightarrow> error + 'r Registry" where
  "defineStep lib unparsedStack this description impl =
     (case getDefinitionLineAndFile (stackTraceParser_parse lib) unparsedStack of
        (ln, fl) \<Rightarrow>
          (case description of
             Str s \<Rightarrow>
               (case new_CucumberExpression lib s (parameterTypeRegistry this) of
                  Inl e \<Rightarrow> Inl e
                | Inr m \<Rightarrow>
                    Inr (this\<lparr>stepDefinitions := stepDefinitions this @
                      [\<lparr>IStepDefinition.file' = fl, line = ln,
                        expression = CucumberExpression s m,
                        implementation = impl\<rparr>]\<rparr>))
           | RegExp src flags \<Rightarrow>
               (case new_RegularExpression lib src flags (parameterTypeRegistry this) of
                  Inl e \<Rightarrow> Inl e
                | Inr m \<Rightarrow>
                    Inr (this\<lparr>stepDefinitions := stepDefinitions this @
                      [\<lparr>IStepDefinition.file' = fl, line = ln,
                        expression = RegularExpression src flags m,
                        implementation = impl\<rparr>]\<rparr>))
           | _ \<Rightarrow> Inl unexpected_step_argument))"

text \<open>
  The constructor binds \<^verbatim>\<open>defineStep\<close> three times, as \<^verbatim>\<open>Given\<close>, \<^verbatim>\<open>When\<close> and
  \<^verbatim>\<open>Then\<close> of \<^verbatim>\<open>methods\<close>; \<^verbatim>\<open>bind(this)\<close> fixes the registry, which the model passes.
\<close>

definition Given ::
  "'r library \<Rightarrow> string option \<Rightarrow> 'r Registry \<Rightarrow> jsval \<Rightarrow> nat \<Rightarrow> error + 'r Registry" where
  "Given = defineStep"

definition When ::
  "'r library \<Rightarrow> string option \<Rightarrow> 'r Registry \<Rightarrow> jsval \<Rightarrow> nat \<Rightarrow> error + 'r Registry" where
  "When = defineStep"

definition Then ::
  "'r library \<Rightarrow> string option \<Rightarrow> 'r Registry \<Rightarrow> jsval \<Rightarrow> nat \<Rightarrow> error + 'r Registry" where
  "Then = defineStep"

text \<open>
  The options of \<^verbatim>\<open>defineParameterType\<close>. The two flags are tested with \<^verbatim>\<open>typeof\<close>, so
  they are dynamically typed; a flag left out is \<^verbatim>\<open>undefined\<close>.
\<close>

record IParameterTypeDefinition =
  name :: string
  regexp :: jsval
  transformer :: "jsval \<Rightarrow> string list \<Rightarrow> error + jsval"
  useForSnippets :: jsval
  preferForRegexpMatch :: jsval

definition defineParameterType ::
  "'r library \<Rightarrow> 'r Registry \<Rightarrow> IParameterTypeDefinition \<Rightarrow> error + 'r Registry" where
  "defineParameterType lib this opts =
     (let useForSnippets0 =
            (if typeof (IParameterTypeDefinition.useForSnippets opts) \<noteq> ''boolean'' then Bool True
             else IParameterTypeDefinition.useForSnippets opts);
          preferForRegexpMatch0 =
            (if typeof (IParameterTypeDefinition.preferForRegexpMatch opts) \<noteq> ''boolean''
             then Bool False
             else IParameterTypeDefinition.preferForRegexpMatch opts)
      in case registry_defineParameterType lib (parameterTypeRegistry this)
                \<lparr>ParameterType.name = IParameterTypeDefinition.name opts,
                 regexps = regexp opts,
                 type' = Null,
                 transform = transformer opts,
                 ParameterType.useForSnippets = useForSnippets0,
                 ParameterType.preferForRegexpMatch = preferForRegexpMatch0\<rparr> of
           Inl e \<Rightarrow> Inl e
         | Inr r \<Rightarrow> Inr (this\<lparr>parameterTypeRegistry := r\<rparr>))"

definition defineBefore :: "'r library \<Rightarrow> 'r Registry \<Rightarrow> jsval \<Rightarrow> jsval \<Rightarrow> error + 'r Registry" where
  "defineBefore lib this optionsOrFn maybeFn =
     (case parseHookArguments (parse lib) optionsOrFn maybeFn of
        Inl e \<Rightarrow> Inl e
      | Inr hook \<Rightarrow> Inr (this\<lparr>beforeHooks := beforeHooks this @ [hook]\<rparr>))"

definition defineAfter :: "'r library \<Rightarrow> 'r Registry \<Rightarrow> jsval \<Rightarrow> jsval \<Rightarrow> error + 'r Registry" where
  "defineAfter lib this optionsOrFn maybeFn =
     (case parseHookArguments (parse lib) optionsOrFn maybeFn of
        Inl e \<Rightarrow> Inl e
      | Inr hook \<Rightarrow> Inr (this\<lparr>afterHooks := afterHooks this @ [hook]\<rparr>))"

subsection \<open>Resolution\<close>

text \<open>
  The callback of \<^verbatim>\<open>map\<close> in the message of the second error: one line for a matching
  definition.
\<close>

definition describe_definition :: "IStepDefinition \<Rightarrow> string" where
  "describe_definition stepDefinition =
     (case expression stepDefinition of
        RegularExpression src flags m \<Rightarrow>
          '' '' @ RegExp_toString src flags @ '' - '' @ IStepDefinition.file' stepDefinition @
          '':'' @ Number_toString (line stepDefinition)
      | CucumberExpression source m \<Rightarrow>
          '' '' @ source @ '' - '' @ IStepDefinition.file' stepDefinition @
          '':'' @ Number_toString (line stepDefinition))"

text \<open>\<^verbatim>\<open>expression.match(text)\<close> is an array (truthy, also when empty) or \<^verbatim>\<open>null\<close>.\<close>

definition matches :: "string \<Rightarrow> IStepDefinition \<Rightarrow> bool" where
  "matches text stepDefinition = (match (expression stepDefinition) text \<noteq> None)"

definition resolveStepDefintion :: "'r Registry \<Rightarrow> string \<Rightarrow> error + IStepDefinition" where
  "resolveStepDefintion this text =
     (let matchingStepDefinitions = filter (matches text) (stepDefinitions this) in
      if length matchingStepDefinitions = 0 then
        Inl (Error (''Step implementation missing for: '' @ text))
      else if length matchingStepDefinitions > 1 then
        Inl (Error (''Multiple matching step definitions for: '' @ text @ [CHR 0x0A] @
               join [CHR 0x0A] (map describe_definition matchingStepDefinitions)))
      else Inr (matchingStepDefinitions ! 0))"

subsection \<open>Invocation\<close>

text \<open>
  A call of a user callback: \<^verbatim>\<open>fn.apply(thisArg, args)\<close>, \<^verbatim>\<open>fn.call(thisArg)\<close>.
\<close>

record Call =
  callee :: nat
  thisArg :: jsval
  args :: "jsval list"

text \<open>
  The callback of \<^verbatim>\<open>map\<close> over the matched arguments: the values are computed from left
  to right, and the first \<^verbatim>\<open>getValue\<close> that raises ends the loop.
\<close>

fun getValues :: "Argument list \<Rightarrow> jsval \<Rightarrow> error + jsval list" where
  "getValues [] world = Inr []"
| "getValues (m # ms) world =
     (case getValue m world of
        Inl e \<Rightarrow> Inl e
      | Inr v \<Rightarrow>
          (case getValues ms world of
             Inl e \<Rightarrow> Inl e
           | Inr vs \<Rightarrow> Inr (v # vs)))"

text \<open>
  \<^verbatim>\<open>argument\<close> is \<^verbatim>\<open>undefined\<close> when the caller leaves it out; a doc string is a
  \<open>Str\<close>, a data table a \<open>DataTable\<close>. Calling \<^verbatim>\<open>map\<close> on a \<^verbatim>\<open>null\<close> match would be
  a \<^verbatim>\<open>TypeError\<close>. The call of the implementation is the last statement: the result is
  the error raised before it, or the call that is made, whose outcome is then the outcome
  of \<^verbatim>\<open>runStepDefininition\<close>.
\<close>

definition runStepDefininition :: "'r Registry \<Rightarrow> jsval \<Rightarrow> string \<Rightarrow> jsval \<Rightarrow> error + Call" where
  "runStepDefininition this world text argument =
     (case resolveStepDefintion this text of
        Inl e \<Rightarrow> Inl e
      | Inr stepDefinition \<Rightarrow>
          (case match (expression stepDefinition) text of
             None \<Rightarrow> Inl (TypeError ''Cannot read properties of null'')
           | Some ms \<Rightarrow>
               (case getValues ms world of
                  Inl e \<Rightarrow> Inl e
                | Inr args0 \<Rightarrow>
                    (let args1 = (if truthy argument then args0 @ [argument] else args0)
                     in Inr \<lparr>callee = IStepDefinition.implementation stepDefinition,
                             thisArg = world, args = args1\<rparr>))))"




subsection \<open>A small registry to evaluate\<close>

text \<open>
  Concrete collaborators and tables, on which the theorems below are evaluated. The
  toy compiler matches a placeholder-free pattern against the identical text, knows three
  templated patterns with placeholders, rejects a pattern with a placeholder of another
  name than its three parameter types, and reads a regular expression as a literal
  prefix; the toy tag parser reads a string as a single tag and rejects \<^verbatim>\<open>@x and\<close>.
  One of the parameter types has a transformer that raises, and one hook raises.
\<close>

definition ex_int :: ParameterType where
  "ex_int =
     \<lparr>ParameterType.name = ''int'', regexps = RegExp ''[0-9]+'' [], type' = Null,
      transform = (\<lambda>thisObj caps. if caps = [''5''] then Inr (Num 5) else Inr Undefined),
      ParameterType.useForSnippets = Bool True,
      ParameterType.preferForRegexpMatch = Bool False\<rparr>"

definition ex_word :: ParameterType where
  "ex_word =
     \<lparr>ParameterType.name = ''word'', regexps = RegExp ''[a-z]+'' [], type' = Null,
      transform = (\<lambda>thisObj caps. case caps of [c] \<Rightarrow> Inr (Str c) | _ \<Rightarrow> Inr Undefined),
      ParameterType.useForSnippets = Bool True,
      ParameterType.preferForRegexpMatch = Bool False\<rparr>"

definition ex_money :: ParameterType where
  "ex_money =
     \<lparr>ParameterType.name = ''money'', regexps = RegExp ''.+'' [], type' = Null,
      transform = (\<lambda>thisObj caps. Inl (Error ''not an amount'')),
      ParameterType.useForSnippets = Bool True,
      ParameterType.preferForRegexpMatch = Bool False\<rparr>"

definition ex_compile :: "string \<Rightarrow> ParameterType list \<Rightarrow> string \<Rightarrow> Argument list option" where
  "ex_compile src r text =
     (if src = ''there are {int} items'' then
        (if text = ''there are 5 items'' then Some [\<lparr>group = [''5''], parameterType = ex_int\<rparr>]
         else None)
      else if src = ''{word} costs {int} coins'' then
        (if text = ''tea costs 5 coins'' then
           Some [\<lparr>group = [''tea''], parameterType = ex_word\<rparr>,
                 \<lparr>group = [''5''], parameterType = ex_int\<rparr>]
         else None)
      else if src = ''I pay {money}'' then
        (if text = ''I pay a lot'' then Some [\<lparr>group = [''a lot''], parameterType = ex_money\<rparr>]
         else None)
      else if text = src then Some [] else None)"

definition ex_new_CucumberExpression ::
  "string \<Rightarrow> ParameterType list \<Rightarrow> error + (string \<Rightarrow> Argument list option)" where
  "ex_new_CucumberExpression src r =
     (if list_all (\<lambda>n. n \<in> set [''int'', ''word'', ''money'']) (placeholders src)
      then Inr (ex_compile src r)
      else Inl (Error ''Undefined parameter type''))"

definition ex_compile_re ::
  "string \<Rightarrow> string \<Rightarrow> ParameterType list \<Rightarrow> string \<Rightarrow> Argument list option" where
  "ex_compile_re src flags r text = (if prefix src text then Some [] else None)"

definition ex_new_RegularExpression ::
  "string \<Rightarrow> string \<Rightarrow> ParameterType list \<Rightarrow> error + (string \<Rightarrow> Argument list option)" where
  "ex_new_RegularExpression src flags r = Inr (ex_compile_re src flags r)"

definition ex_parse :: "jsval \<Rightarrow> string list \<Rightarrow> bool" where
  "ex_parse v tags = (case v of Str s \<Rightarrow> s \<in> set tags | _ \<Rightarrow> True)"

definition ex_tag_parse :: "jsval \<Rightarrow> error + (string list \<Rightarrow> bool)" where
  "ex_tag_parse v =
     (case v of
        Str s \<Rightarrow> if s = ''@x and'' then Inl (Error ''Tag expression could not be parsed'')
                 else Inr (ex_parse v)
      | _ \<Rightarrow> Inl (TypeError ''tag expression is not a string''))"

definition ex_frames :: "StackFrame list" where
  "ex_frames =
     [\<lparr>StackFrame.file' = None, methodName = ''getDefinitionLineAndFile'',
       lineNumber = Some 64, column = Some 25\<rparr>,
      \<lparr>StackFrame.file' =
         Some ''node_modules/@badeball/cypress-cucumber-preprocessor/lib/registry.js'',
       methodName = ''Registry.defineStep'', lineNumber = Some 152, column = Some 30\<rparr>,
      \<lparr>StackFrame.file' = Some ''cypress/support/step_definitions/steps.js'',
       methodName = ''<unknown>'', lineNumber = None, column = None\<rparr>,
      \<lparr>StackFrame.file' = Some ''cypress/support/index.js'',
       methodName = ''<unknown>'', lineNumber = Some 7, column = Some 1\<rparr>]"

definition ex_stack_parse :: "string \<Rightarrow> StackFrame list" where
  "ex_stack_parse s = (if s = ''Error at steps.js'' then ex_frames else take 2 ex_frames)"

definition ex_lib :: "ParameterType list library" where
  "ex_lib =
     \<lparr>new_CucumberExpression = ex_new_CucumberExpression,
      new_RegularExpression = ex_new_RegularExpression,
      new_ParameterTypeRegistry = [],
      registry_defineParameterType = (\<lambda>r p. Inr (r @ [p])),
      parse = ex_tag_parse,
      stackTraceParser_parse = ex_stack_parse\<rparr>"

definition ex_opts_plain :: IParameterTypeDefinition where
  "ex_opts_plain =
     \<lparr>IParameterTypeDefinition.name = ''color'', regexp = RegExp ''red|blue'' [],
      transformer = (\<lambda>thisObj caps. case caps of [c] \<Rightarrow> Inr (Str c) | _ \<Rightarrow> Inr Undefined),
      IParameterTypeDefinition.useForSnippets = Undefined,
      IParameterTypeDefinition.preferForRegexpMatch = Str ''yes''\<rparr>"

definition ex_opts_flags :: IParameterTypeDefinition where
  "ex_opts_flags =
     \<lparr>IParameterTypeDefinition.name = ''color'', regexp = RegExp ''red|blue'' [],
      transformer = (\<lambda>thisObj caps. case caps of [c] \<Rightarrow> Inr (Str c) | _ \<Rightarrow> Inr Undefined),
      IParameterTypeDefinition.useForSnippets = Bool False,
      IParameterTypeDefinition.preferForRegexpMatch = Bool True\<rparr>"

definition ex_step_a :: IStepDefinition where
  "ex_step_a =
     \<lparr>IStepDefinition.file' = ''steps.js'', line = 3,
      expression = CucumberExpression ''a step'' (ex_compile ''a step'' []),
      implementation = 1\<rparr>"

definition ex_step_re :: IStepDefinition where
  "ex_step_re =
     \<lparr>IStepDefinition.file' = ''other.js'', line = 12,
      expression = RegularExpression ''a '' ''i'' (ex_compile_re ''a '' ''i'' []),
      implementation = 2\<rparr>"

definition ex_step_items :: IStepDefinition where
  "ex_step_items =
     \<lparr>IStepDefinition.file' = ''steps.js'', line = 40,
      expression =
        CucumberExpression ''there are {int} items'' (ex_compile ''there are {int} items'' []),
      implementation = 3\<rparr>"

definition ex_step_doc :: IStepDefinition where
  "ex_step_doc =
     \<lparr>IStepDefinition.file' = ''steps.js'', line = 50,
      expression = CucumberExpression ''the doc string is'' (ex_compile ''the doc string is'' []),
      implementation = 4\<rparr>"

definition ex_hook_all :: IHook where
  "ex_hook_all = \<lparr>node = noopNode, implementation = 10\<rparr>"

definition ex_hook_x :: IHook where
  "ex_hook_x = \<lparr>node = ex_parse (Str ''@x''), implementation = 11\<rparr>"

definition ex_hook_y :: IHook where
  "ex_hook_y = \<lparr>node = ex_parse (Str ''@y''), implementation = 12\<rparr>"

definition ex_registry :: "ParameterType list Registry" where
  "ex_registry =
     \<lparr>parameterTypeRegistry = [],
      stepDefinitions = [ex_step_a, ex_step_re, ex_step_items, ex_step_doc],
      beforeHooks = [ex_hook_x, ex_hook_y, ex_hook_all],
      afterHooks = [ex_hook_all, ex_hook_x]\<rparr>"






section \<open>Properties\<close>

subsection \<open>Resolution: exactly one match (C1) and the message of an ambiguity (C4)\<close>

lemma filter_single_length: "length xs = 1 \<Longrightarrow> xs = [xs ! 0]"
  by (cases xs) auto

lemma resolve_none:
  "filter (matches text) (stepDefinitions this) = [] \<Longrightarrow>
   resolveStepDefintion this text = Inl (Error (''Step implementation missing for: '' @ text))"
  by (simp add: resolveStepDefintion_def)

lemma resolve_one:
  "filter (matches text) (stepDefinitions this) = [sd] \<Longrightarrow> resolveStepDefintion this text = Inr sd"
  by (simp add: resolveStepDefintion_def)

lemma join_lines: "ls \<noteq> [] \<Longrightarrow> sep @ join sep ls = concat (map (\<lambda>l. sep @ l) ls)"
  by (induction sep ls rule: join.induct) auto

lemma resolve_many:
  "1 < length (filter (matches text) (stepDefinitions this)) \<Longrightarrow>
   resolveStepDefintion this text =
     Inl (Error (''Multiple matching step definitions for: '' @ text @
       concat (map (\<lambda>sd. [CHR 0x0A] @ describe_definition sd)
         (filter (matches text) (stepDefinitions this)))))"
proof -
  assume h: "1 < length (filter (matches text) (stepDefinitions this))"
  let ?ms = "filter (matches text) (stepDefinitions this)"
  have ne: "map describe_definition ?ms \<noteq> []" using h by auto
  have "[CHR 0x0A] @ join [CHR 0x0A] (map describe_definition ?ms) =
        concat (map (\<lambda>l. [CHR 0x0A] @ l) (map describe_definition ?ms))"
    by (rule join_lines [OF ne])
  then have "[CHR 0x0A] @ join [CHR 0x0A] (map describe_definition ?ms) =
        concat (map (\<lambda>sd. [CHR 0x0A] @ describe_definition sd) ?ms)"
    by (simp add: comp_def)
  moreover have "?ms \<noteq> []" using h by auto
  ultimately show ?thesis using h
    by (simp add: resolveStepDefintion_def Let_def)
qed

lemma resolve_Inr_iff:
  "resolveStepDefintion this text = Inr sd \<longleftrightarrow> filter (matches text) (stepDefinitions this) = [sd]"
proof
  assume a: "resolveStepDefintion this text = Inr sd"
  let ?ms = "filter (matches text) (stepDefinitions this)"
  from a have "?ms \<noteq> []" and "\<not> 1 < length ?ms" and e: "?ms ! 0 = sd"
    by (auto simp: resolveStepDefintion_def Let_def split: if_splits)
  then have l: "length ?ms = 1" by (cases ?ms) auto
  from filter_single_length [OF l] e show "?ms = [sd]" by simp
next
  assume "filter (matches text) (stepDefinitions this) = [sd]"
  then show "resolveStepDefintion this text = Inr sd" by (rule resolve_one)
qed


lemmas ex_steps_defs =
  ex_registry_def ex_step_a_def ex_step_re_def ex_step_items_def ex_step_doc_def
  ex_compile_def ex_compile_re_def matches_def

lemma ex_no_match: "filter (matches ''zzz'') (stepDefinitions ex_registry) = []"
  by (simp add: ex_steps_defs)

lemma ex_one_match:
  "filter (matches ''there are 5 items'') (stepDefinitions ex_registry) = [ex_step_items]"
  by (simp add: ex_steps_defs)

lemma ex_two_matches:
  "filter (matches ''a step'') (stepDefinitions ex_registry) = [ex_step_a, ex_step_re]"
  by (simp add: ex_steps_defs)

text \<open>
  C1. Resolution enforces exactly one match. With no matching definition it fails with
  the error whose message is \<^verbatim>\<open>Step implementation missing for: \<close> followed by the
  line; it returns a definition exactly when that definition is the only match; with
  more than one match it fails with the error that starts
  \<^verbatim>\<open>Multiple matching step definitions for: \<close> and the line, and returns no definition.
\<close>

theorem resolve_exactly_one_match:
  "(filter (matches text) (stepDefinitions this) = [] \<longrightarrow>
      resolveStepDefintion this text = Inl (Error (''Step implementation missing for: '' @ text)))
   \<and> (resolveStepDefintion this text = Inr sd \<longleftrightarrow>
        filter (matches text) (stepDefinitions this) = [sd])
   \<and> (1 < length (filter (matches text) (stepDefinitions this)) \<longrightarrow>
        (\<exists>msg. resolveStepDefintion this text =
           Inl (Error (''Multiple matching step definitions for: '' @ text @ msg)))
        \<and> (\<forall>d. resolveStepDefintion this text \<noteq> Inr d))"
proof (intro conjI impI)
  assume "filter (matches text) (stepDefinitions this) = []"
  then show "resolveStepDefintion this text =
      Inl (Error (''Step implementation missing for: '' @ text))"
    by (rule resolve_none)
next
  show "resolveStepDefintion this text = Inr sd \<longleftrightarrow>
        filter (matches text) (stepDefinitions this) = [sd]"
    by (rule resolve_Inr_iff)
next
  assume "1 < length (filter (matches text) (stepDefinitions this))"
  from resolve_many [OF this]
  show "\<exists>msg. resolveStepDefintion this text =
           Inl (Error (''Multiple matching step definitions for: '' @ text @ msg))"
    by blast
next
  assume "1 < length (filter (matches text) (stepDefinitions this))"
  from resolve_many [OF this]
  show "\<forall>d. resolveStepDefintion this text \<noteq> Inr d"
    by simp
qed

theorem resolve_exactly_one_match_witness:
  "filter (matches ''zzz'') (stepDefinitions ex_registry) = []
   \<and> resolveStepDefintion ex_registry ''zzz'' =
       Inl (Error ''Step implementation missing for: zzz'')
   \<and> filter (matches ''there are 5 items'') (stepDefinitions ex_registry) = [ex_step_items]
   \<and> resolveStepDefintion ex_registry ''there are 5 items'' = Inr ex_step_items
   \<and> 1 < length (filter (matches ''a step'') (stepDefinitions ex_registry))
   \<and> (\<exists>msg. resolveStepDefintion ex_registry ''a step'' =
         Inl (Error (''Multiple matching step definitions for: a step'' @ msg)))
   \<and> (\<forall>d. resolveStepDefintion ex_registry ''a step'' \<noteq> Inr d)"
proof -
  have two: "1 < length (filter (matches ''a step'') (stepDefinitions ex_registry))"
    by (simp add: ex_two_matches)
  show ?thesis
    using resolve_exactly_one_match [of "''zzz''" ex_registry ex_step_items]
      resolve_exactly_one_match [of "''there are 5 items''" ex_registry ex_step_items]
      resolve_exactly_one_match [of "''a step''" ex_registry ex_step_items]
      ex_no_match ex_one_match two
    by simp
qed

lemma describe_definition_templated:
  "expression sd = CucumberExpression source m \<Longrightarrow>
   describe_definition sd =
     '' '' @ source @ '' - '' @ IStepDefinition.file' sd @ '':'' @ Number_toString (line sd)"
  by (simp add: describe_definition_def)

lemma describe_definition_regexp:
  "expression sd = RegularExpression src flags m \<Longrightarrow>
   describe_definition sd =
     '' /'' @ src @ ''/'' @ flags @ '' - '' @ IStepDefinition.file' sd @ '':'' @
     Number_toString (line sd)"
  by (simp add: describe_definition_def RegExp_toString_def)

text \<open>
  C4. With more than one match, the message of the error is the heading followed by one
  line per matching definition, in table order: a newline, a space, the source of a
  templated pattern or the regular expression as \<^verbatim>\<open>/source/flags\<close>, then
  \<^verbatim>\<open> - \<close>, the file, a colon and the line number.
\<close>

theorem ambiguous_message_lists_definitions:
  "(1 < length (filter (matches text) (stepDefinitions this)) \<longrightarrow>
      resolveStepDefintion this text =
        Inl (Error (''Multiple matching step definitions for: '' @ text @
          concat (map (\<lambda>sd. [CHR 0x0A] @ describe_definition sd)
            (filter (matches text) (stepDefinitions this))))))
   \<and> (\<forall>sd source m. expression sd = CucumberExpression source m \<longrightarrow>
         describe_definition sd =
           '' '' @ source @ '' - '' @ IStepDefinition.file' sd @ '':'' @
           Number_toString (line sd))
   \<and> (\<forall>sd src flags m. expression sd = RegularExpression src flags m \<longrightarrow>
         describe_definition sd =
           '' /'' @ src @ ''/'' @ flags @ '' - '' @ IStepDefinition.file' sd @ '':'' @
           Number_toString (line sd))"
  using resolve_many describe_definition_templated describe_definition_regexp
  by blast

theorem ambiguous_message_lists_definitions_witness:
  "1 < length (filter (matches ''a step'') (stepDefinitions ex_registry))
   \<and> expression ex_step_a = CucumberExpression ''a step'' (ex_compile ''a step'' [])
   \<and> expression ex_step_re = RegularExpression ''a '' ''i'' (ex_compile_re ''a '' ''i'' [])
   \<and> resolveStepDefintion ex_registry ''a step'' =
       Inl (Error (''Multiple matching step definitions for: a step'' @ [CHR 0x0A] @
         '' a step - steps.js:3'' @ [CHR 0x0A] @ '' /a /i - other.js:12''))"
proof -
  have two: "1 < length (filter (matches ''a step'') (stepDefinitions ex_registry))"
    by (simp add: ex_two_matches)
  have a: "expression ex_step_a = CucumberExpression ''a step'' (ex_compile ''a step'' [])"
    by (simp add: ex_step_a_def)
  have r: "expression ex_step_re = RegularExpression ''a '' ''i'' (ex_compile_re ''a '' ''i'' [])"
    by (simp add: ex_step_re_def)
  have fa: "IStepDefinition.file' ex_step_a = ''steps.js'' \<and> line ex_step_a = 3"
    by (simp add: ex_step_a_def)
  have fr: "IStepDefinition.file' ex_step_re = ''other.js'' \<and> line ex_step_re = 12"
    by (simp add: ex_step_re_def)
  have n: "Number_toString 3 = ''3'' \<and> Number_toString 12 = ''12''"
    by (simp add: Number_toString.simps digit_char_def)
  from ambiguous_message_lists_definitions [of "''a step''" ex_registry]
  show ?thesis using two a r fa fr n
    by (simp add: ex_two_matches)
qed

subsection \<open>Invocation of a step: pattern arguments (C2) and the trailing argument (C6)\<close>



lemma run_resolved:
  assumes "filter (matches text) (stepDefinitions this) = [sd]"
    and "match (expression sd) text = Some ms"
  shows "runStepDefininition this world text argument =
     (case getValues ms world of
        Inl e \<Rightarrow> Inl e
      | Inr vs \<Rightarrow>
          Inr \<lparr>callee = IStepDefinition.implementation sd, thisArg = world,
               args = vs @ (if truthy argument then [argument] else [])\<rparr>)"
  using assms resolve_one [OF assms(1)]
  by (simp add: runStepDefininition_def Let_def split: sum.splits)

lemma run_empty_string_as_omitted:
  "runStepDefininition this world text (Str []) = runStepDefininition this world text Undefined"
  by (simp add: runStepDefininition_def split: sum.splits option.splits)

lemma run_truthy_argument_last:
  assumes "truthy argument" and "runStepDefininition this world text argument = Inr call"
  shows "args call \<noteq> [] \<and> last (args call) = argument"
  using assms
  by (auto simp: runStepDefininition_def Let_def split: sum.splits option.splits)






lemma ex_pay_placeholders: "placeholders ''I pay {money}'' = [''money'']"
  by simp



lemma ex_doc_match:
  "filter (matches ''the doc string is'') (stepDefinitions ex_registry) = [ex_step_doc]"
  by (simp add: ex_steps_defs)

text \<open>
  C6. A trailing argument is appended when it is truthy (\<open>run_truthy_argument_last\<close>),
  but the test \<^verbatim>\<open>if (argument)\<close> takes the empty doc string for an argument left out
  (\<open>run_empty_string_as_omitted\<close>): on the step \<^verbatim>\<open>the doc string is\<close> with the doc
  string \<^verbatim>\<open>""\<close> the implementation is called with no argument at all, while the doc
  string \<^verbatim>\<open>"foo"\<close> is passed.
\<close>

theorem run_drops_empty_doc_string:
  "runStepDefininition ex_registry (Object []) ''the doc string is'' (Str '''') =
     Inr \<lparr>callee = 4, thisArg = Object [], args = []\<rparr>
   \<and> runStepDefininition ex_registry (Object []) ''the doc string is'' (Str ''foo'') =
     Inr \<lparr>callee = 4, thisArg = Object [], args = [Str ''foo'']\<rparr>"
proof -
  have m: "match (expression ex_step_doc) ''the doc string is'' = Some []"
    by (simp add: ex_step_doc_def ex_compile_def)
  have i: "IStepDefinition.implementation ex_step_doc = 4" by (simp add: ex_step_doc_def)
  from run_resolved [OF ex_doc_match m, of "Object []" "Str ''''"]
    run_resolved [OF ex_doc_match m, of "Object []" "Str ''foo''"]
  show ?thesis using i by simp
qed

subsection \<open>Running hooks (C3)\<close>

























lemma ex_after_split: "afterHooks ex_registry = [] @ ex_hook_all # [] @ ex_hook_x # []"
  by (simp add: ex_registry_def)








subsection \<open>The argument shapes of hook registration (C5)\<close>

lemma parse_single_callable:
  "\<not> truthy maybeFn \<Longrightarrow>
   parseHookArguments prs (Func f) maybeFn = Inr \<lparr>node = noopNode, implementation = f\<rparr>"
  by simp

lemma parse_callable_then_truthy:
  "truthy maybeFn \<Longrightarrow> parseHookArguments prs (Func f) maybeFn = Inl unexpected_hook_argument"
  by simp

lemma parse_options_callable:
  assumes "typeof optionsOrFn = ''object''" and "get_tags optionsOrFn = Inr tags"
  shows "parseHookArguments prs optionsOrFn (Func g) =
     (if truthy tags then
        (case prs tags of
           Inl e \<Rightarrow> Inl e
         | Inr n \<Rightarrow> Inr \<lparr>node = n, implementation = g\<rparr>)
      else Inr \<lparr>node = noopNode, implementation = g\<rparr>)"
  using assms by (cases optionsOrFn) auto

lemma parse_options_not_callable:
  assumes "typeof optionsOrFn = ''object''" and "typeof maybeFn \<noteq> ''function''"
  shows "parseHookArguments prs optionsOrFn maybeFn = Inl unexpected_hook_argument"
  using assms by (cases optionsOrFn; cases maybeFn) auto

lemma parse_other_first:
  assumes "typeof optionsOrFn \<noteq> ''function''" and "typeof optionsOrFn \<noteq> ''object''"
  shows "parseHookArguments prs optionsOrFn maybeFn = Inl unexpected_hook_argument"
  using assms by (cases optionsOrFn) auto

lemma parse_null_callable:
  "parseHookArguments prs Null (Func g) = Inl (TypeError ''Cannot read properties of null'')"
  by simp

lemma get_tags_not_null: "optionsOrFn \<noteq> Null \<Longrightarrow> \<exists>tags. get_tags optionsOrFn = Inr tags"
  by (cases optionsOrFn) (auto split: option.splits)

text \<open>
  C5, amended. \<^verbatim>\<open>defineBefore\<close> and \<^verbatim>\<open>defineAfter\<close> append the hook that
  \<^verbatim>\<open>parseHookArguments\<close> returns and fail as it fails. A callable followed by nothing
  or by any falsy value registers an unconditional hook; a callable followed by a truthy
  value (a second callable, for one) fails with \<^verbatim>\<open>Unexpected argument for Before hook\<close>.
  A value of type object other than \<^verbatim>\<open>null\<close> followed by a callable registers an
  unconditional hook when \<^verbatim>\<open>tags\<close> is left out or falsy; otherwise it registers a hook
  gated by the parsed \<^verbatim>\<open>tags\<close> when the tag parser accepts them, and fails with the
  error of the parser, registering nothing, when it does not. A value of type object
  followed by anything but a callable fails with \<^verbatim>\<open>Unexpected argument for Before hook\<close>,
  and so does a first argument that is neither a callable nor of type object.
\<close>

theorem hook_registration_shapes:
  "defineBefore lib this optionsOrFn maybeFn =
     (case parseHookArguments (parse lib) optionsOrFn maybeFn of
        Inl e \<Rightarrow> Inl e
      | Inr hook \<Rightarrow> Inr (this\<lparr>beforeHooks := beforeHooks this @ [hook]\<rparr>))
   \<and> defineAfter lib this optionsOrFn maybeFn =
     (case parseHookArguments (parse lib) optionsOrFn maybeFn of
        Inl e \<Rightarrow> Inl e
      | Inr hook \<Rightarrow> Inr (this\<lparr>afterHooks := afterHooks this @ [hook]\<rparr>))
   \<and> (\<not> truthy maybeFn \<longrightarrow>
        parseHookArguments prs (Func f) maybeFn = Inr \<lparr>node = noopNode, implementation = f\<rparr>)
   \<and> (truthy maybeFn \<longrightarrow>
        parseHookArguments prs (Func f) maybeFn = Inl unexpected_hook_argument)
   \<and> (typeof optionsOrFn = ''object'' \<and> optionsOrFn \<noteq> Null \<longrightarrow>
        (\<exists>tags. get_tags optionsOrFn = Inr tags \<and>
           parseHookArguments prs optionsOrFn (Func g) =
             (if truthy tags then
                (case prs tags of
                   Inl e \<Rightarrow> Inl e
                 | Inr n \<Rightarrow> Inr \<lparr>node = n, implementation = g\<rparr>)
              else Inr \<lparr>node = noopNode, implementation = g\<rparr>)))
   \<and> (map_of props ''tags'' = None \<longrightarrow>
        parseHookArguments prs (Object props) (Func g) =
          Inr \<lparr>node = noopNode, implementation = g\<rparr>)
   \<and> (map_of props ''tags'' = Some (Str t) \<and> t \<noteq> [] \<and> prs (Str t) = Inr n \<longrightarrow>
        parseHookArguments prs (Object props) (Func g) = Inr \<lparr>node = n, implementation = g\<rparr>)
   \<and> (map_of props ''tags'' = Some (Str t) \<and> t \<noteq> [] \<and> prs (Str t) = Inl e \<longrightarrow>
        parseHookArguments prs (Object props) (Func g) = Inl e)
   \<and> (typeof optionsOrFn = ''object'' \<and> typeof maybeFn \<noteq> ''function'' \<longrightarrow>
        parseHookArguments prs optionsOrFn maybeFn = Inl unexpected_hook_argument)
   \<and> (typeof optionsOrFn \<noteq> ''function'' \<and> typeof optionsOrFn \<noteq> ''object'' \<longrightarrow>
        parseHookArguments prs optionsOrFn maybeFn = Inl unexpected_hook_argument)"
proof (intro conjI impI)
  show "defineBefore lib this optionsOrFn maybeFn =
     (case parseHookArguments (parse lib) optionsOrFn maybeFn of
        Inl e \<Rightarrow> Inl e
      | Inr hook \<Rightarrow> Inr (this\<lparr>beforeHooks := beforeHooks this @ [hook]\<rparr>))"
    by (simp add: defineBefore_def)
  show "defineAfter lib this optionsOrFn maybeFn =
     (case parseHookArguments (parse lib) optionsOrFn maybeFn of
        Inl e \<Rightarrow> Inl e
      | Inr hook \<Rightarrow> Inr (this\<lparr>afterHooks := afterHooks this @ [hook]\<rparr>))"
    by (simp add: defineAfter_def)
next
  assume "\<not> truthy maybeFn"
  then show "parseHookArguments prs (Func f) maybeFn =
      Inr \<lparr>node = noopNode, implementation = f\<rparr>"
    by (rule parse_single_callable)
next
  assume "truthy maybeFn"
  then show "parseHookArguments prs (Func f) maybeFn = Inl unexpected_hook_argument"
    by (rule parse_callable_then_truthy)
next
  assume a: "typeof optionsOrFn = ''object'' \<and> optionsOrFn \<noteq> Null"
  then obtain tags where t: "get_tags optionsOrFn = Inr tags"
    using get_tags_not_null by blast
  from a have o: "typeof optionsOrFn = ''object''" by simp
  from parse_options_callable [OF o t, of prs g] t
  show "\<exists>tags. get_tags optionsOrFn = Inr tags \<and>
           parseHookArguments prs optionsOrFn (Func g) =
             (if truthy tags then
                (case prs tags of
                   Inl e \<Rightarrow> Inl e
                 | Inr n \<Rightarrow> Inr \<lparr>node = n, implementation = g\<rparr>)
              else Inr \<lparr>node = noopNode, implementation = g\<rparr>)"
    by blast
next
  assume "map_of props ''tags'' = None"
  then show "parseHookArguments prs (Object props) (Func g) =
          Inr \<lparr>node = noopNode, implementation = g\<rparr>"
    by simp
next
  assume "map_of props ''tags'' = Some (Str t) \<and> t \<noteq> [] \<and> prs (Str t) = Inr n"
  then show "parseHookArguments prs (Object props) (Func g) =
      Inr \<lparr>node = n, implementation = g\<rparr>"
    by simp
next
  assume "map_of props ''tags'' = Some (Str t) \<and> t \<noteq> [] \<and> prs (Str t) = Inl e"
  then show "parseHookArguments prs (Object props) (Func g) = Inl e"
    by simp
next
  assume a: "typeof optionsOrFn = ''object'' \<and> typeof maybeFn \<noteq> ''function''"
  show "parseHookArguments prs optionsOrFn maybeFn = Inl unexpected_hook_argument"
    by (rule parse_options_not_callable [OF a [THEN conjunct1] a [THEN conjunct2]])
next
  assume a: "typeof optionsOrFn \<noteq> ''function'' \<and> typeof optionsOrFn \<noteq> ''object''"
  show "parseHookArguments prs optionsOrFn maybeFn = Inl unexpected_hook_argument"
    by (rule parse_other_first [OF a [THEN conjunct1] a [THEN conjunct2]])
qed

lemma ex_tag_parse_x: "ex_tag_parse (Str ''@x'') = Inr (ex_parse (Str ''@x''))"
  by (simp add: ex_tag_parse_def)

lemma ex_tag_parse_bad:
  "ex_tag_parse (Str ''@x and'') = Inl (Error ''Tag expression could not be parsed'')"
  by (simp add: ex_tag_parse_def)

theorem hook_registration_shapes_witness:
  "\<not> truthy Undefined
   \<and> parseHookArguments ex_tag_parse (Func 7) Undefined =
       Inr \<lparr>node = noopNode, implementation = 7\<rparr>
   \<and> truthy (Func 8)
   \<and> parseHookArguments ex_tag_parse (Func 7) (Func 8) = Inl unexpected_hook_argument
   \<and> map_of [(''tags'', Str ''@x'')] ''tags'' = Some (Str ''@x'')
   \<and> ex_tag_parse (Str ''@x'') = Inr (ex_parse (Str ''@x''))
   \<and> parseHookArguments ex_tag_parse (Object [(''tags'', Str ''@x'')]) (Func 8) =
       Inr \<lparr>node = ex_parse (Str ''@x''), implementation = 8\<rparr>
   \<and> map_of [(''tags'', Str ''@x and'')] ''tags'' = Some (Str ''@x and'')
   \<and> ex_tag_parse (Str ''@x and'') = Inl (Error ''Tag expression could not be parsed'')
   \<and> parseHookArguments ex_tag_parse (Object [(''tags'', Str ''@x and'')]) (Func 8) =
       Inl (Error ''Tag expression could not be parsed'')
   \<and> map_of [] ''tags'' = (None :: jsval option)
   \<and> parseHookArguments ex_tag_parse (Object []) (Func 8) =
       Inr \<lparr>node = noopNode, implementation = 8\<rparr>
   \<and> typeof (Object []) = ''object'' \<and> typeof Undefined \<noteq> ''function''
   \<and> parseHookArguments ex_tag_parse (Object []) Undefined = Inl unexpected_hook_argument
   \<and> typeof (Str ''@x'') \<noteq> ''function'' \<and> typeof (Str ''@x'') \<noteq> ''object''
   \<and> parseHookArguments ex_tag_parse (Str ''@x'') (Func 8) = Inl unexpected_hook_argument"
proof -
  note a = hook_registration_shapes
    [of ex_lib ex_registry "Object [(''tags'', Str ''@x'')]" Undefined ex_tag_parse 7 8
       "[(''tags'', Str ''@x'')]" "''@x''" "ex_parse (Str ''@x'')"
       "Error ''Tag expression could not be parsed''"]
  note a' = hook_registration_shapes
    [of ex_lib ex_registry "Object [(''tags'', Str ''@x and'')]" Undefined ex_tag_parse 7 8
       "[(''tags'', Str ''@x and'')]" "''@x and''" "ex_parse (Str ''@x'')"
       "Error ''Tag expression could not be parsed''"]
  note b = hook_registration_shapes
    [of ex_lib ex_registry "Object []" "Func 8" ex_tag_parse 7 8 "[]" "''@x''"
       "ex_parse (Str ''@x'')" "Error ''Tag expression could not be parsed''"]
  note c = hook_registration_shapes
    [of ex_lib ex_registry "Object []" Undefined ex_tag_parse 7 8 "[]" "''@x''"
       "ex_parse (Str ''@x'')" "Error ''Tag expression could not be parsed''"]
  note d = hook_registration_shapes
    [of ex_lib ex_registry "Str ''@x''" "Func 8" ex_tag_parse 7 8 "[]" "''@x''"
       "ex_parse (Str ''@x'')" "Error ''Tag expression could not be parsed''"]
  have a1: "parseHookArguments ex_tag_parse (Func 7) Undefined =
       Inr \<lparr>node = noopNode, implementation = 7\<rparr>"
    using a by simp
  have a2: "parseHookArguments ex_tag_parse (Object [(''tags'', Str ''@x'')]) (Func 8) =
       Inr \<lparr>node = ex_parse (Str ''@x''), implementation = 8\<rparr>"
    using a ex_tag_parse_x by simp
  have a3: "parseHookArguments ex_tag_parse (Object [(''tags'', Str ''@x and'')]) (Func 8) =
       Inl (Error ''Tag expression could not be parsed'')"
    using a' ex_tag_parse_bad by simp
  have b1: "parseHookArguments ex_tag_parse (Func 7) (Func 8) = Inl unexpected_hook_argument"
    using b by simp
  have b2: "parseHookArguments ex_tag_parse (Object []) (Func 8) =
       Inr \<lparr>node = noopNode, implementation = 8\<rparr>"
    using b by simp
  have c1: "parseHookArguments ex_tag_parse (Object []) Undefined = Inl unexpected_hook_argument"
    using c by simp
  have d1: "parseHookArguments ex_tag_parse (Str ''@x'') (Func 8) = Inl unexpected_hook_argument"
    using d by simp
  show ?thesis using a1 a2 a3 b1 b2 c1 d1 ex_tag_parse_x ex_tag_parse_bad by simp
qed

text \<open>
  The claim as stated fails: a callable followed by \<^verbatim>\<open>false\<close>, or by the empty
  string, is neither of the two shapes and is accepted.
\<close>

theorem hook_registration_shapes_counterexample:
  "defineBefore ex_lib ex_registry (Func 7) (Bool False) =
     Inr (ex_registry\<lparr>beforeHooks := beforeHooks ex_registry @
       [\<lparr>node = noopNode, implementation = 7\<rparr>]\<rparr>)
   \<and> defineAfter ex_lib ex_registry (Func 7) (Str []) =
     Inr (ex_registry\<lparr>afterHooks := afterHooks ex_registry @
       [\<lparr>node = noopNode, implementation = 7\<rparr>]\<rparr>)"
  by (simp add: defineBefore_def defineAfter_def)

subsection \<open>Registering steps (C7) and parameter types (C8); the three names (C9)\<close>

lemma defineStep_string:
  "defineStep lib stack this (Str s) impl =
     (case new_CucumberExpression lib s (parameterTypeRegistry this) of
        Inl e \<Rightarrow> Inl e
      | Inr m \<Rightarrow>
          Inr (this\<lparr>stepDefinitions := stepDefinitions this @
            [\<lparr>IStepDefinition.file' =
                snd (getDefinitionLineAndFile (stackTraceParser_parse lib) stack),
              line = fst (getDefinitionLineAndFile (stackTraceParser_parse lib) stack),
              expression = CucumberExpression s m,
              implementation = impl\<rparr>]\<rparr>))"
  by (simp add: defineStep_def split: prod.splits sum.splits)

lemma defineStep_regexp:
  "defineStep lib stack this (RegExp src flags) impl =
     (case new_RegularExpression lib src flags (parameterTypeRegistry this) of
        Inl e \<Rightarrow> Inl e
      | Inr m \<Rightarrow>
          Inr (this\<lparr>stepDefinitions := stepDefinitions this @
            [\<lparr>IStepDefinition.file' =
                snd (getDefinitionLineAndFile (stackTraceParser_parse lib) stack),
              line = fst (getDefinitionLineAndFile (stackTraceParser_parse lib) stack),
              expression = RegularExpression src flags m,
              implementation = impl\<rparr>]\<rparr>))"
  by (simp add: defineStep_def split: prod.splits sum.splits)

lemma defineStep_other:
  assumes "typeof description \<noteq> ''string''" and "\<forall>src flags. description \<noteq> RegExp src flags"
  shows "defineStep lib stack this description impl = Inl unexpected_step_argument"
  using assms by (cases description) (simp_all add: defineStep_def split: prod.splits)

lemma defineStep_fails_only:
  assumes "defineStep lib stack this description impl = Inl e"
  shows "(e = unexpected_step_argument \<and> typeof description \<noteq> ''string'' \<and>
          (\<forall>src flags. description \<noteq> RegExp src flags))
       \<or> (\<exists>s. description = Str s \<and>
             new_CucumberExpression lib s (parameterTypeRegistry this) = Inl e)
       \<or> (\<exists>src flags. description = RegExp src flags \<and>
             new_RegularExpression lib src flags (parameterTypeRegistry this) = Inl e)"
proof (cases description)
  case (Str s)
  with assms show ?thesis by (simp add: defineStep_string split: sum.splits)
next
  case (RegExp src flags)
  with assms show ?thesis by (simp add: defineStep_regexp split: sum.splits)
qed (use assms in \<open>simp_all add: defineStep_def split: prod.splits\<close>)

lemma defineStep_succeeds_only:
  assumes "defineStep lib stack this description impl = Inr this'"
  shows "\<exists>sd. this' = this\<lparr>stepDefinitions := stepDefinitions this @ [sd]\<rparr> \<and>
     IStepDefinition.implementation sd = impl \<and>
     (line sd, IStepDefinition.file' sd) =
       getDefinitionLineAndFile (stackTraceParser_parse lib) stack \<and>
     ((\<exists>s m. description = Str s \<and>
          new_CucumberExpression lib s (parameterTypeRegistry this) = Inr m \<and>
          expression sd = CucumberExpression s m)
      \<or> (\<exists>src flags m. description = RegExp src flags \<and>
          new_RegularExpression lib src flags (parameterTypeRegistry this) = Inr m \<and>
          expression sd = RegularExpression src flags m))"
proof (cases description)
  case (Str s)
  with assms show ?thesis by (auto simp: defineStep_string split: sum.splits)
next
  case (RegExp src flags)
  with assms show ?thesis by (auto simp: defineStep_regexp split: sum.splits)
qed (use assms in \<open>simp_all add: defineStep_def split: prod.splits\<close>)

lemma defineStep_stack_independent:
  "(defineStep lib stack this description impl = Inl e) =
   (defineStep lib stack' this description impl = Inl e)"
proof (cases description)
  case (Str s)
  then show ?thesis by (simp add: defineStep_string split: sum.splits)
next
  case (RegExp src flags)
  then show ?thesis by (simp add: defineStep_regexp split: sum.splits)
qed (simp_all add: defineStep_def split: prod.splits)

text \<open>
  C7, amended. \<^verbatim>\<open>defineStep\<close> fails with \<^verbatim>\<open>Unexpected argument for step definition\<close>
  when the pattern is neither a string nor a regular expression. For a string that the
  constructor of \<^verbatim>\<open>CucumberExpression\<close> accepts it appends exactly one definition, whose
  expression is that templated expression, compiled against the current parameter type
  registry; for a regular expression that the constructor of \<^verbatim>\<open>RegularExpression\<close>
  accepts, exactly one whose expression is that literal one; the other tables are
  unchanged. When the constructor raises, \<^verbatim>\<open>defineStep\<close> raises the same error and
  appends nothing. It fails in no other case.
\<close>

theorem defineStep_dispatch:
  "(typeof description \<noteq> ''string'' \<and> (\<forall>src flags. description \<noteq> RegExp src flags) \<longrightarrow>
      defineStep lib stack this description impl = Inl unexpected_step_argument)
   \<and> (new_CucumberExpression lib s (parameterTypeRegistry this) = Inr m \<longrightarrow>
        (\<exists>sd. defineStep lib stack this (Str s) impl =
           Inr (this\<lparr>stepDefinitions := stepDefinitions this @ [sd]\<rparr>)
         \<and> expression sd = CucumberExpression s m
         \<and> IStepDefinition.implementation sd = impl))
   \<and> (new_CucumberExpression lib s (parameterTypeRegistry this) = Inl e \<longrightarrow>
        defineStep lib stack this (Str s) impl = Inl e)
   \<and> (new_RegularExpression lib src flags (parameterTypeRegistry this) = Inr m \<longrightarrow>
        (\<exists>sd. defineStep lib stack this (RegExp src flags) impl =
           Inr (this\<lparr>stepDefinitions := stepDefinitions this @ [sd]\<rparr>)
         \<and> expression sd = RegularExpression src flags m
         \<and> IStepDefinition.implementation sd = impl))
   \<and> (new_RegularExpression lib src flags (parameterTypeRegistry this) = Inl e \<longrightarrow>
        defineStep lib stack this (RegExp src flags) impl = Inl e)
   \<and> (defineStep lib stack this description impl = Inl e \<longrightarrow>
        (e = unexpected_step_argument \<and> typeof description \<noteq> ''string'' \<and>
         (\<forall>src flags. description \<noteq> RegExp src flags))
        \<or> (\<exists>s. description = Str s \<and>
              new_CucumberExpression lib s (parameterTypeRegistry this) = Inl e)
        \<or> (\<exists>src flags. description = RegExp src flags \<and>
              new_RegularExpression lib src flags (parameterTypeRegistry this) = Inl e))"
proof (intro conjI impI)
  assume a: "typeof description \<noteq> ''string'' \<and> (\<forall>src flags. description \<noteq> RegExp src flags)"
  show "defineStep lib stack this description impl = Inl unexpected_step_argument"
    by (rule defineStep_other [OF a [THEN conjunct1] a [THEN conjunct2]])
next
  assume "new_CucumberExpression lib s (parameterTypeRegistry this) = Inr m"
  then show "\<exists>sd. defineStep lib stack this (Str s) impl =
           Inr (this\<lparr>stepDefinitions := stepDefinitions this @ [sd]\<rparr>)
         \<and> expression sd = CucumberExpression s m
         \<and> IStepDefinition.implementation sd = impl"
    by (subst defineStep_string) (simp, rule exI, intro conjI, rule refl, simp_all)
next
  assume "new_CucumberExpression lib s (parameterTypeRegistry this) = Inl e"
  then show "defineStep lib stack this (Str s) impl = Inl e"
    by (simp add: defineStep_string)
next
  assume "new_RegularExpression lib src flags (parameterTypeRegistry this) = Inr m"
  then show "\<exists>sd. defineStep lib stack this (RegExp src flags) impl =
           Inr (this\<lparr>stepDefinitions := stepDefinitions this @ [sd]\<rparr>)
         \<and> expression sd = RegularExpression src flags m
         \<and> IStepDefinition.implementation sd = impl"
    by (subst defineStep_regexp) (simp, rule exI, intro conjI, rule refl, simp_all)
next
  assume "new_RegularExpression lib src flags (parameterTypeRegistry this) = Inl e"
  then show "defineStep lib stack this (RegExp src flags) impl = Inl e"
    by (simp add: defineStep_regexp)
next
  assume "defineStep lib stack this description impl = Inl e"
  then show "(e = unexpected_step_argument \<and> typeof description \<noteq> ''string'' \<and>
         (\<forall>src flags. description \<noteq> RegExp src flags))
        \<or> (\<exists>s. description = Str s \<and>
              new_CucumberExpression lib s (parameterTypeRegistry this) = Inl e)
        \<or> (\<exists>src flags. description = RegExp src flags \<and>
              new_RegularExpression lib src flags (parameterTypeRegistry this) = Inl e)"
    by (rule defineStep_fails_only)
qed

lemma ex_new_a_step:
  "new_CucumberExpression ex_lib ''a step'' (parameterTypeRegistry ex_registry) =
     Inr (ex_compile ''a step'' [])"
  by (simp add: ex_lib_def ex_registry_def ex_new_CucumberExpression_def)

lemma ex_new_foo_step:
  "new_CucumberExpression ex_lib ''a {foo} step'' (parameterTypeRegistry ex_registry) =
     Inl (Error ''Undefined parameter type'')"
  by (simp add: ex_lib_def ex_registry_def ex_new_CucumberExpression_def)

lemma ex_new_regexp:
  "new_RegularExpression ex_lib ''a '' ''i'' (parameterTypeRegistry ex_registry) =
     Inr (ex_compile_re ''a '' ''i'' [])"
  by (simp add: ex_lib_def ex_registry_def ex_new_RegularExpression_def)

theorem defineStep_dispatch_witness:
  "typeof (Num 5) \<noteq> ''string'' \<and> (\<forall>src flags. Num 5 \<noteq> RegExp src flags)
   \<and> defineStep ex_lib None ex_registry (Num 5) 9 = Inl unexpected_step_argument
   \<and> new_CucumberExpression ex_lib ''a step'' (parameterTypeRegistry ex_registry) =
       Inr (ex_compile ''a step'' [])
   \<and> (\<exists>sd. defineStep ex_lib None ex_registry (Str ''a step'') 9 =
          Inr (ex_registry\<lparr>stepDefinitions := stepDefinitions ex_registry @ [sd]\<rparr>)
        \<and> expression sd = CucumberExpression ''a step'' (ex_compile ''a step'' [])
        \<and> IStepDefinition.implementation sd = 9)
   \<and> new_CucumberExpression ex_lib ''a {foo} step'' (parameterTypeRegistry ex_registry) =
       Inl (Error ''Undefined parameter type'')
   \<and> defineStep ex_lib None ex_registry (Str ''a {foo} step'') 9 =
       Inl (Error ''Undefined parameter type'')
   \<and> new_RegularExpression ex_lib ''a '' ''i'' (parameterTypeRegistry ex_registry) =
       Inr (ex_compile_re ''a '' ''i'' [])
   \<and> (\<exists>sd. defineStep ex_lib None ex_registry (RegExp ''a '' ''i'') 9 =
          Inr (ex_registry\<lparr>stepDefinitions := stepDefinitions ex_registry @ [sd]\<rparr>)
        \<and> expression sd = RegularExpression ''a '' ''i'' (ex_compile_re ''a '' ''i'' [])
        \<and> IStepDefinition.implementation sd = 9)"
proof -
  note ok = defineStep_dispatch [of "Num 5" ex_lib None ex_registry 9 "''a step''"
      "ex_compile ''a step'' []" "Error ''Undefined parameter type''" "''a ''" "''i''"]
  note re = defineStep_dispatch [of "Num 5" ex_lib None ex_registry 9 "''a step''"
      "ex_compile_re ''a '' ''i'' []" "Error ''Undefined parameter type''" "''a ''" "''i''"]
  note bad = defineStep_dispatch [of "Num 5" ex_lib None ex_registry 9 "''a {foo} step''"
      "ex_compile ''a step'' []" "Error ''Undefined parameter type''" "''a ''" "''i''"]
  have w1: "defineStep ex_lib None ex_registry (Num 5) 9 = Inl unexpected_step_argument"
    using ok by simp
  have w2: "\<exists>sd. defineStep ex_lib None ex_registry (Str ''a step'') 9 =
          Inr (ex_registry\<lparr>stepDefinitions := stepDefinitions ex_registry @ [sd]\<rparr>)
        \<and> expression sd = CucumberExpression ''a step'' (ex_compile ''a step'' [])
        \<and> IStepDefinition.implementation sd = 9"
    by (rule ok [THEN conjunct2, THEN conjunct1, THEN mp, OF ex_new_a_step])
  have w3: "defineStep ex_lib None ex_registry (Str ''a {foo} step'') 9 =
       Inl (Error ''Undefined parameter type'')"
    by (rule bad [THEN conjunct2, THEN conjunct2, THEN conjunct1, THEN mp, OF ex_new_foo_step])
  have w4: "\<exists>sd. defineStep ex_lib None ex_registry (RegExp ''a '' ''i'') 9 =
          Inr (ex_registry\<lparr>stepDefinitions := stepDefinitions ex_registry @ [sd]\<rparr>)
        \<and> expression sd = RegularExpression ''a '' ''i'' (ex_compile_re ''a '' ''i'' [])
        \<and> IStepDefinition.implementation sd = 9"
    by (rule re [THEN conjunct2, THEN conjunct2, THEN conjunct2, THEN conjunct1, THEN mp,
      OF ex_new_regexp])
  show ?thesis using w1 w2 w3 w4 ex_new_a_step ex_new_foo_step ex_new_regexp by simp
qed

text \<open>
  The claim as stated fails: the pattern \<^verbatim>\<open>a {foo} step\<close> is a string, the constructor
  rejects its placeholder, and no definition is appended.
\<close>

theorem defineStep_dispatch_counterexample:
  "defineStep ex_lib None ex_registry (Str ''a {foo} step'') 9 =
     Inl (Error ''Undefined parameter type'')"
  by (simp add: defineStep_string ex_new_foo_step)

text \<open>
  C8. \<^verbatim>\<open>defineParameterType\<close> hands to the registry of the library the parameter type
  with the given name, regular expression and transformer, with \<^verbatim>\<open>useForSnippets\<close> as
  given when it is a boolean and \<^verbatim>\<open>true\<close> otherwise, and \<^verbatim>\<open>preferForRegexpMatch\<close> as
  given when it is a boolean and \<^verbatim>\<open>false\<close> otherwise.
\<close>

theorem defineParameterType_defaults:
  "defineParameterType lib this opts =
     (case registry_defineParameterType lib (parameterTypeRegistry this)
             \<lparr>ParameterType.name = IParameterTypeDefinition.name opts,
              regexps = regexp opts,
              type' = Null,
              transform = transformer opts,
              ParameterType.useForSnippets =
                (case IParameterTypeDefinition.useForSnippets opts of
                   Bool b \<Rightarrow> Bool b | _ \<Rightarrow> Bool True),
              ParameterType.preferForRegexpMatch =
                (case IParameterTypeDefinition.preferForRegexpMatch opts of
                   Bool b \<Rightarrow> Bool b | _ \<Rightarrow> Bool False)\<rparr> of
        Inl e \<Rightarrow> Inl e
      | Inr r \<Rightarrow> Inr (this\<lparr>parameterTypeRegistry := r\<rparr>))"
proof -
  have u: "(if typeof (IParameterTypeDefinition.useForSnippets opts) \<noteq> ''boolean'' then Bool True
            else IParameterTypeDefinition.useForSnippets opts) =
           (case IParameterTypeDefinition.useForSnippets opts of
              Bool b \<Rightarrow> Bool b | _ \<Rightarrow> Bool True)"
    by (cases "IParameterTypeDefinition.useForSnippets opts") simp_all
  have p: "(if typeof (IParameterTypeDefinition.preferForRegexpMatch opts) \<noteq> ''boolean''
            then Bool False
            else IParameterTypeDefinition.preferForRegexpMatch opts) =
           (case IParameterTypeDefinition.preferForRegexpMatch opts of
              Bool b \<Rightarrow> Bool b | _ \<Rightarrow> Bool False)"
    by (cases "IParameterTypeDefinition.preferForRegexpMatch opts") simp_all
  show ?thesis
    unfolding defineParameterType_def Let_def u p ..
qed

theorem defineParameterType_defaults_witness:
  "defineParameterType ex_lib ex_registry ex_opts_plain =
     Inr (ex_registry\<lparr>parameterTypeRegistry :=
       [\<lparr>ParameterType.name = ''color'', regexps = RegExp ''red|blue'' [], type' = Null,
         transform = transformer ex_opts_plain,
         ParameterType.useForSnippets = Bool True,
         ParameterType.preferForRegexpMatch = Bool False\<rparr>]\<rparr>)
   \<and> defineParameterType ex_lib ex_registry ex_opts_flags =
     Inr (ex_registry\<lparr>parameterTypeRegistry :=
       [\<lparr>ParameterType.name = ''color'', regexps = RegExp ''red|blue'' [], type' = Null,
         transform = transformer ex_opts_flags,
         ParameterType.useForSnippets = Bool False,
         ParameterType.preferForRegexpMatch = Bool True\<rparr>]\<rparr>)"
proof -
  have l: "registry_defineParameterType ex_lib = (\<lambda>r p. Inr (r @ [p]))"
    "parameterTypeRegistry ex_registry = []"
    by (simp_all add: ex_lib_def ex_registry_def)
  have a: "IParameterTypeDefinition.name ex_opts_plain = ''color''"
    "regexp ex_opts_plain = RegExp ''red|blue'' []"
    "IParameterTypeDefinition.useForSnippets ex_opts_plain = Undefined"
    "IParameterTypeDefinition.preferForRegexpMatch ex_opts_plain = Str ''yes''"
    by (simp_all add: ex_opts_plain_def)
  have b: "IParameterTypeDefinition.name ex_opts_flags = ''color''"
    "regexp ex_opts_flags = RegExp ''red|blue'' []"
    "IParameterTypeDefinition.useForSnippets ex_opts_flags = Bool False"
    "IParameterTypeDefinition.preferForRegexpMatch ex_opts_flags = Bool True"
    by (simp_all add: ex_opts_flags_def)
  from defineParameterType_defaults [of ex_lib ex_registry ex_opts_plain]
    defineParameterType_defaults [of ex_lib ex_registry ex_opts_flags]
  show ?thesis by (simp add: l a b)
qed

text \<open>
  C9. \<^verbatim>\<open>Given\<close>, \<^verbatim>\<open>When\<close> and \<^verbatim>\<open>Then\<close> are \<^verbatim>\<open>defineStep\<close>: on every pattern and
  implementation each gives the result, and so the registry, that \<^verbatim>\<open>defineStep\<close> gives.
\<close>

theorem given_when_then_are_defineStep:
  "Given lib stack this description impl = defineStep lib stack this description impl
   \<and> When lib stack this description impl = defineStep lib stack this description impl
   \<and> Then lib stack this description impl = defineStep lib stack this description impl"
  by (simp add: Given_def When_def Then_def)


subsection \<open>Source location (C10)\<close>

lemma user_frame_iff:
  "user_frame frame \<longleftrightarrow>
     (\<exists>f. StackFrame.file' frame = Some f \<and> f \<noteq> [] \<and> \<not> isFileNameInpreprocessor f)"
  by (auto simp: user_frame_def split: option.splits)

lemma location_no_stack:
  "getDefinitionLineAndFile stparse None = (0, ''unknown'') \<and>
   getDefinitionLineAndFile stparse (Some []) = (0, ''unknown'')"
  by (simp add: getDefinitionLineAndFile_def)

lemma location_no_user_frame:
  assumes "\<forall>frame \<in> set (stparse s). \<not> user_frame frame"
  shows "getDefinitionLineAndFile stparse (Some s) = (0, ''unknown'')"
proof -
  from assms have "find user_frame (stparse s) = None"
    by (simp add: find_None_iff)
  then show ?thesis by (simp add: getDefinitionLineAndFile_def)
qed

lemma location_found:
  assumes "s \<noteq> []" and "find user_frame (stparse s) = Some frame"
  shows "\<exists>f. StackFrame.file' frame = Some f \<and> f \<noteq> [] \<and> \<not> isFileNameInpreprocessor f \<and>
     getDefinitionLineAndFile stparse (Some s) =
       (case lineNumber frame of None \<Rightarrow> 0 | Some l \<Rightarrow> l, f)"
proof -
  from assms(2) have "user_frame frame" by (auto simp: find_Some_iff)
  then obtain f where f: "StackFrame.file' frame = Some f" "f \<noteq> []" "\<not> isFileNameInpreprocessor f"
    using user_frame_iff by blast
  with assms show ?thesis by (simp add: getDefinitionLineAndFile_def)
qed

lemma ex_preprocessor_file:
  "isFileNameInpreprocessor
     ''node_modules/@badeball/cypress-cucumber-preprocessor/lib/registry.js''"
  by (simp add: isFileNameInpreprocessor_def String_includes_def sublist_code)

lemma ex_user_file:
  "\<not> isFileNameInpreprocessor ''cypress/support/step_definitions/steps.js''"
  by (simp add: isFileNameInpreprocessor_def String_includes_def sublist_code)

lemma ex_find_none: "\<forall>frame \<in> set (ex_stack_parse ''Error''). \<not> user_frame frame"
  by (simp add: ex_stack_parse_def ex_frames_def user_frame_def ex_preprocessor_file)

lemma ex_find_some:
  "find user_frame (ex_stack_parse ''Error at steps.js'') =
     Some \<lparr>StackFrame.file' = Some ''cypress/support/step_definitions/steps.js'',
           methodName = ''<unknown>'', lineNumber = None, column = None\<rparr>"
  by (simp add: ex_stack_parse_def ex_frames_def user_frame_def ex_preprocessor_file ex_user_file)

text \<open>
  C10. Capturing the location never makes registration fail: \<^verbatim>\<open>defineStep\<close> fails only
  on a pattern of the wrong type or when the expression constructor raises, whether it
  fails does not depend on the stack, and a definition that is registered carries the
  location that \<^verbatim>\<open>getDefinitionLineAndFile\<close> returns. Without a stack, or when no frame
  has a non-empty file name outside the preprocessor, the location is line 0 of
  \<^verbatim>\<open>unknown\<close>. When such a frame is found, the file is that frame's file, which is
  present, and the line is the frame's line number, 0 when it has none.
\<close>

theorem location_capture_total:
  "(defineStep lib stack this description impl = Inr this' \<longrightarrow>
      (\<exists>sd. this' = this\<lparr>stepDefinitions := stepDefinitions this @ [sd]\<rparr>
         \<and> (line sd, IStepDefinition.file' sd) =
             getDefinitionLineAndFile (stackTraceParser_parse lib) stack))
   \<and> ((defineStep lib stack this description impl = Inl e) =
       (defineStep lib stack' this description impl = Inl e))
   \<and> (defineStep lib stack this description impl = Inl e \<longrightarrow>
        (e = unexpected_step_argument \<and> typeof description \<noteq> ''string'' \<and>
         (\<forall>src flags. description \<noteq> RegExp src flags))
        \<or> (\<exists>s. description = Str s \<and>
              new_CucumberExpression lib s (parameterTypeRegistry this) = Inl e)
        \<or> (\<exists>src flags. description = RegExp src flags \<and>
              new_RegularExpression lib src flags (parameterTypeRegistry this) = Inl e))
   \<and> getDefinitionLineAndFile stparse None = (0, ''unknown'')
   \<and> getDefinitionLineAndFile stparse (Some []) = (0, ''unknown'')
   \<and> ((\<forall>frame \<in> set (stparse u). \<not> user_frame frame) \<longrightarrow>
        getDefinitionLineAndFile stparse (Some u) = (0, ''unknown''))
   \<and> (u \<noteq> [] \<and> find user_frame (stparse u) = Some frame \<longrightarrow>
        (\<exists>f. StackFrame.file' frame = Some f \<and> f \<noteq> [] \<and> \<not> isFileNameInpreprocessor f \<and>
           getDefinitionLineAndFile stparse (Some u) =
             (case lineNumber frame of None \<Rightarrow> 0 | Some l \<Rightarrow> l, f)))
   \<and> (u \<noteq> [] \<and> find user_frame (stparse u) = Some frame \<and> lineNumber frame = None \<longrightarrow>
        (\<exists>f. StackFrame.file' frame = Some f \<and>
           getDefinitionLineAndFile stparse (Some u) = (0, f)))"
proof (intro conjI impI)
  assume "defineStep lib stack this description impl = Inr this'"
  from defineStep_succeeds_only [OF this]
  show "\<exists>sd. this' = this\<lparr>stepDefinitions := stepDefinitions this @ [sd]\<rparr>
         \<and> (line sd, IStepDefinition.file' sd) =
             getDefinitionLineAndFile (stackTraceParser_parse lib) stack"
    by blast
next
  show "(defineStep lib stack this description impl = Inl e) =
       (defineStep lib stack' this description impl = Inl e)"
    by (rule defineStep_stack_independent)
  show "getDefinitionLineAndFile stparse None = (0, ''unknown'')"
    and "getDefinitionLineAndFile stparse (Some []) = (0, ''unknown'')"
    using location_no_stack by simp_all
next
  assume "defineStep lib stack this description impl = Inl e"
  then show "(e = unexpected_step_argument \<and> typeof description \<noteq> ''string'' \<and>
         (\<forall>src flags. description \<noteq> RegExp src flags))
        \<or> (\<exists>s. description = Str s \<and>
              new_CucumberExpression lib s (parameterTypeRegistry this) = Inl e)
        \<or> (\<exists>src flags. description = RegExp src flags \<and>
              new_RegularExpression lib src flags (parameterTypeRegistry this) = Inl e)"
    by (rule defineStep_fails_only)
next
  assume "\<forall>frame \<in> set (stparse u). \<not> user_frame frame"
  then show "getDefinitionLineAndFile stparse (Some u) = (0, ''unknown'')"
    by (rule location_no_user_frame)
next
  assume "u \<noteq> [] \<and> find user_frame (stparse u) = Some frame"
  then show "\<exists>f. StackFrame.file' frame = Some f \<and> f \<noteq> [] \<and> \<not> isFileNameInpreprocessor f \<and>
           getDefinitionLineAndFile stparse (Some u) =
             (case lineNumber frame of None \<Rightarrow> 0 | Some l \<Rightarrow> l, f)"
    using location_found by blast
next
  assume a: "u \<noteq> [] \<and> find user_frame (stparse u) = Some frame \<and> lineNumber frame = None"
  then obtain f where "StackFrame.file' frame = Some f"
    "getDefinitionLineAndFile stparse (Some u) =
       (case lineNumber frame of None \<Rightarrow> 0 | Some l \<Rightarrow> l, f)"
    using location_found by blast
  with a show "\<exists>f. StackFrame.file' frame = Some f \<and>
           getDefinitionLineAndFile stparse (Some u) = (0, f)"
    by simp
qed

lemma ex_define_located:
  "defineStep ex_lib (Some ''Error at steps.js'') ex_registry (Str ''a step'') 9 =
     Inr (ex_registry\<lparr>stepDefinitions := stepDefinitions ex_registry @
       [\<lparr>IStepDefinition.file' = ''cypress/support/step_definitions/steps.js'', line = 0,
         expression = CucumberExpression ''a step'' (ex_compile ''a step'' []),
         implementation = 9\<rparr>]\<rparr>)"
proof -
  have "getDefinitionLineAndFile ex_stack_parse (Some ''Error at steps.js'') =
      (0, ''cypress/support/step_definitions/steps.js'')"
    by (simp add: getDefinitionLineAndFile_def ex_find_some)
  moreover have "stackTraceParser_parse ex_lib = ex_stack_parse" by (simp add: ex_lib_def)
  ultimately show ?thesis by (simp add: defineStep_string ex_new_a_step)
qed

theorem location_capture_total_witness:
  "find user_frame (ex_stack_parse ''Error'') = None
   \<and> getDefinitionLineAndFile ex_stack_parse (Some ''Error'') = (0, ''unknown'')
   \<and> ''Error at steps.js'' \<noteq> []
   \<and> find user_frame (ex_stack_parse ''Error at steps.js'') =
       Some \<lparr>StackFrame.file' = Some ''cypress/support/step_definitions/steps.js'',
             methodName = ''<unknown>'', lineNumber = None, column = None\<rparr>
   \<and> getDefinitionLineAndFile ex_stack_parse (Some ''Error at steps.js'') =
       (0, ''cypress/support/step_definitions/steps.js'')
   \<and> defineStep ex_lib (Some ''Error at steps.js'') ex_registry (Str ''a step'') 9 =
       Inr (ex_registry\<lparr>stepDefinitions := stepDefinitions ex_registry @
         [\<lparr>IStepDefinition.file' = ''cypress/support/step_definitions/steps.js'', line = 0,
           expression = CucumberExpression ''a step'' (ex_compile ''a step'' []),
           implementation = 9\<rparr>]\<rparr>)
   \<and> (\<exists>sd. ex_registry\<lparr>stepDefinitions := stepDefinitions ex_registry @
         [\<lparr>IStepDefinition.file' = ''cypress/support/step_definitions/steps.js'', line = 0,
           expression = CucumberExpression ''a step'' (ex_compile ''a step'' []),
           implementation = 9\<rparr>]\<rparr> =
         ex_registry\<lparr>stepDefinitions := stepDefinitions ex_registry @ [sd]\<rparr>
       \<and> (line sd, IStepDefinition.file' sd) =
           (0, ''cypress/support/step_definitions/steps.js''))"
proof -
  let ?fr = "\<lparr>StackFrame.file' = Some ''cypress/support/step_definitions/steps.js'',
             methodName = ''<unknown>'', lineNumber = None, column = None\<rparr>"
  let ?reg = "ex_registry\<lparr>stepDefinitions := stepDefinitions ex_registry @
         [\<lparr>IStepDefinition.file' = ''cypress/support/step_definitions/steps.js'', line = 0,
           expression = CucumberExpression ''a step'' (ex_compile ''a step'' []),
           implementation = 9\<rparr>]\<rparr>"
  have p: "stackTraceParser_parse ex_lib = ex_stack_parse" by (simp add: ex_lib_def)
  note n = location_capture_total
    [of ex_lib "Some ''Error at steps.js''" ex_registry "Str ''a step''" 9 ?reg
       unexpected_step_argument None ex_stack_parse "''Error''" ?fr]
  note f = location_capture_total
    [of ex_lib "Some ''Error at steps.js''" ex_registry "Str ''a step''" 9 ?reg
       unexpected_step_argument None ex_stack_parse "''Error at steps.js''" ?fr]
  have g1: "getDefinitionLineAndFile ex_stack_parse (Some ''Error'') = (0, ''unknown'')"
    using n ex_find_none by blast
  have g2: "getDefinitionLineAndFile ex_stack_parse (Some ''Error at steps.js'') =
       (0, ''cypress/support/step_definitions/steps.js'')"
    using f ex_find_some by simp
  have d: "\<exists>sd. ?reg = ex_registry\<lparr>stepDefinitions := stepDefinitions ex_registry @ [sd]\<rparr>
       \<and> (line sd, IStepDefinition.file' sd) =
           getDefinitionLineAndFile (stackTraceParser_parse ex_lib) (Some ''Error at steps.js'')"
    by (rule f [THEN conjunct1, THEN mp, OF ex_define_located])
  have e: "find user_frame (ex_stack_parse ''Error'') = None"
    using ex_find_none by (simp add: find_None_iff)
  show ?thesis using g1 g2 d e ex_find_some ex_define_located by (simp add: p)
qed

end
